theory Spec2Isabelle
  imports Main "HOL-Library.Char_ord" "HOL-Library.List_Lexorder" "HOL-Library.Multiset"
begin

section \<open>Topic and Skill service: the handlers of app.py\<close>

text \<open>
  The development embeds the route handlers of \<^verbatim>\<open>src/app.py\<close> (\<^verbatim>\<open>create_app\<close>) as
  functions on an explicit store. A string is a list of characters, and a character
  is a code point below 256.
\<close>

subsection \<open>Data model\<close>

text \<open>
  Modelled from the spec: the model classes \<^verbatim>\<open>Topic\<close> and \<^verbatim>\<open>Skill\<close> and the handle
  \<^verbatim>\<open>db\<close> come from \<^verbatim>\<open>models.py\<close>, which the handlers import. Their fields are the
  ones the handlers read and write (\<^verbatim>\<open>name\<close>, \<^verbatim>\<open>description\<close>, \<^verbatim>\<open>parent_topic_id\<close>,
  \<^verbatim>\<open>topic_id\<close>, \<^verbatim>\<open>difficulty\<close>) and the identifier. A table is the list of its rows in
  row order; identifiers are the primary key.
\<close>

record topic =
  topic_id :: string
  topic_name :: string
  topic_description :: "string option"
  parent_topic_id :: "string option"

record skill =
  skill_id :: string
  skill_name :: string
  skill_topic_id :: string
  skill_difficulty :: string

record store =
  topics :: "topic list"
  skills :: "skill list"

definition empty_store :: store where
  "empty_store = \<lparr>topics = [], skills = []\<rparr>"

text \<open>
  The three error answers of the handlers (404, 422, 409), the 422 with the message that
  tells its cause, and the failure of the database on a query it rejects (an unhandled
  exception, 500).
\<close>

datatype reason = NameRequired | ParentNotFound | TopicIDRequired | TopicNotFound

datatype error = NotFound | ValidationError reason | Conflict | DatabaseError

subsection \<open>Request payloads\<close>

text \<open>
  A key of the JSON body is absent, \<^verbatim>\<open>null\<close>, or a string. \<^verbatim>\<open>payload.get(k)\<close> is
  \<open>get\<close>: \<^verbatim>\<open>None\<close> for an absent key and for \<^verbatim>\<open>null\<close>. \<^verbatim>\<open>payload.get(k, d)\<close> is
  \<open>get_default\<close>: the default only for an absent key. A body that is missing or is not
  JSON is the payload with every key absent (\<^verbatim>\<open>request.get_json(silent=True) or {}\<close>).
\<close>

datatype jfield = Absent | Null | Str string

record topic_payload =
  tp_name :: jfield
  tp_description :: jfield
  tp_parentTopicID :: jfield

record skill_payload =
  sp_name :: jfield
  sp_topicID :: jfield
  sp_topicId :: jfield
  sp_difficulty :: jfield

fun get :: "jfield \<Rightarrow> string option" where
  "get Absent = None"
| "get Null = None"
| "get (Str v) = Some v"

fun get_default :: "jfield \<Rightarrow> string option \<Rightarrow> string option" where
  "get_default Absent d = d"
| "get_default Null d = None"
| "get_default (Str v) d = Some v"

text \<open>Python truthiness of \<^verbatim>\<open>None\<close> and of a string, and the operator \<^verbatim>\<open>or\<close>.\<close>

fun truthy :: "string option \<Rightarrow> bool" where
  "truthy None = False"
| "truthy (Some v) = (v \<noteq> [])"

definition py_or :: "string option \<Rightarrow> string option \<Rightarrow> string option" where
  "py_or a b = (if truthy a then a else b)"

fun or_else :: "string option \<Rightarrow> string \<Rightarrow> string" where
  "or_else None d = d"
| "or_else (Some v) d = (if v \<noteq> [] then v else d)"

text \<open>\<^verbatim>\<open>str.strip()\<close>: leading and trailing whitespace removed. The whitespace
  characters of Python below 256 are the codes 9 to 13, 28 to 32 (the space), 133
  (next line) and 160 (no-break space).\<close>

definition is_space :: "char \<Rightarrow> bool" where
  "is_space c =
     (let n = (of_char c :: nat)
      in (9 \<le> n \<and> n \<le> 13) \<or> (28 \<le> n \<and> n \<le> 32) \<or> n = 133 \<or> n = 160)"

definition strip :: "string \<Rightarrow> string" where
  "strip v = rev (dropWhile is_space (rev (dropWhile is_space v)))"

text \<open>
  The database holds text without the character of code 0, and its driver refuses a
  statement that carries a string with it (an unhandled error). \<open>text_ok\<close> says that a
  string is free of it; the writing handlers below are the handlers on such strings.
\<close>

definition text_ok :: "string \<Rightarrow> bool" where
  "text_ok v = (filter (\<lambda>c. (of_char c :: nat) = 0) v = [])"

fun field_ok :: "jfield \<Rightarrow> bool" where
  "field_ok (Str v) = text_ok v"
| "field_ok other = True"

fun arg_ok :: "string option \<Rightarrow> bool" where
  "arg_ok None = True"
| "arg_ok (Some v) = text_ok v"

definition topic_payload_ok :: "topic_payload \<Rightarrow> bool" where
  "topic_payload_ok p =
     (field_ok (tp_name p) \<and> field_ok (tp_description p) \<and> field_ok (tp_parentTopicID p))"

definition skill_payload_ok :: "skill_payload \<Rightarrow> bool" where
  "skill_payload_ok u =
     (field_ok (sp_name u) \<and> field_ok (sp_topicID u) \<and> field_ok (sp_topicId u) \<and>
      field_ok (sp_difficulty u))"

subsection \<open>Storage\<close>

text \<open>
  Modelled from the spec: the queries of the storage interface that the handlers call
  through SQLAlchemy. \<^verbatim>\<open>Topic.query.get(k)\<close> is \<open>find_topic\<close> (no row for \<^verbatim>\<open>None\<close>);
  \<^verbatim>\<open>exists().where(Skill.topic_id == id)\<close> is \<open>topic_has_skills\<close>; \<^verbatim>\<open>db.session.add\<close>
  appends a row, \<^verbatim>\<open>db.session.delete\<close> removes the row of that identifier, and an
  assignment to a loaded row followed by \<^verbatim>\<open>commit\<close> replaces it in place.
\<close>

definition find_topic :: "store \<Rightarrow> string option \<Rightarrow> topic option" where
  "find_topic s k = (case k of None \<Rightarrow> None | Some i \<Rightarrow> find (\<lambda>t. topic_id t = i) (topics s))"

definition find_skill :: "store \<Rightarrow> string option \<Rightarrow> skill option" where
  "find_skill s k = (case k of None \<Rightarrow> None | Some i \<Rightarrow> find (\<lambda>x. skill_id x = i) (skills s))"

definition topic_has_skills :: "store \<Rightarrow> string \<Rightarrow> bool" where
  "topic_has_skills s i = (i \<in> set (map skill_topic_id (skills s)))"

definition add_topic :: "topic \<Rightarrow> store \<Rightarrow> store" where
  "add_topic t s = s\<lparr>topics := topics s @ [t]\<rparr>"

definition add_skill :: "skill \<Rightarrow> store \<Rightarrow> store" where
  "add_skill x s = s\<lparr>skills := skills s @ [x]\<rparr>"

definition put_topic :: "topic \<Rightarrow> store \<Rightarrow> store" where
  "put_topic t s = s\<lparr>topics := map (\<lambda>r. if topic_id r = topic_id t then t else r) (topics s)\<rparr>"

definition put_skill :: "skill \<Rightarrow> store \<Rightarrow> store" where
  "put_skill x s = s\<lparr>skills := map (\<lambda>r. if skill_id r = skill_id x then x else r) (skills s)\<rparr>"

definition remove_topic :: "string \<Rightarrow> store \<Rightarrow> store" where
  "remove_topic i s = s\<lparr>topics := filter (\<lambda>r. topic_id r \<noteq> i) (topics s)\<rparr>"

definition remove_skill :: "string \<Rightarrow> store \<Rightarrow> store" where
  "remove_skill i s = s\<lparr>skills := filter (\<lambda>r. skill_id r \<noteq> i) (skills s)\<rparr>"

subsection \<open>Topic handlers\<close>

text \<open>
  Modelled from the spec: the identifier of a new row is generated in \<^verbatim>\<open>models.py\<close>
  (opaque, unique). The creating handlers take the generated identifier as their first
  argument \<open>new_id\<close>.
\<close>

definition create_topic :: "string \<Rightarrow> topic_payload \<Rightarrow> store \<Rightarrow> store \<times> (error + topic)" where
  "create_topic new_id payload s =
    (let name = strip (or_else (get (tp_name payload)) []);
         description = get (tp_description payload);
         parent_id = get (tp_parentTopicID payload)
     in if name = [] then (s, Inl (ValidationError NameRequired))
        else if truthy parent_id \<and> find_topic s parent_id = None
          then (s, Inl (ValidationError ParentNotFound))
        else
          (let t = \<lparr>topic_id = new_id, topic_name = name, topic_description = description,
                    parent_topic_id = parent_id\<rparr>
           in (add_topic t s, Inr t)))"

definition update_topic :: "string \<Rightarrow> topic_payload \<Rightarrow> store \<Rightarrow> store \<times> (error + topic)" where
  "update_topic i payload s =
    (case find_topic s (Some i) of
       None \<Rightarrow> (s, Inl NotFound)
     | Some t \<Rightarrow>
        (let name = strip (or_else (get (tp_name payload)) (topic_name t));
             description = get_default (tp_description payload) (topic_description t);
             parent_id = get_default (tp_parentTopicID payload) (parent_topic_id t)
         in if truthy parent_id \<and> find_topic s parent_id = None
              then (s, Inl (ValidationError ParentNotFound))
            else
              (let t' = t\<lparr>topic_name := name, topic_description := description,
                          parent_topic_id := parent_id\<rparr>
               in (put_topic t' s, Inr t'))))"

definition delete_topic :: "string \<Rightarrow> store \<Rightarrow> store \<times> (error + unit)" where
  "delete_topic i s =
    (case find_topic s (Some i) of
       None \<Rightarrow> (s, Inl NotFound)
     | Some t \<Rightarrow>
        if topic_has_skills s i then (s, Inl Conflict)
        else (remove_topic i s, Inr ()))"

subsection \<open>Skill handlers\<close>

definition create_skill :: "string \<Rightarrow> skill_payload \<Rightarrow> store \<Rightarrow> store \<times> (error + skill)" where
  "create_skill new_id payload s =
    (let name = strip (or_else (get (sp_name payload)) []);
         topic_id = py_or (get (sp_topicID payload)) (get (sp_topicId payload));
         difficulty = strip (or_else (get (sp_difficulty payload)) ''beginner'')
     in if name = [] then (s, Inl (ValidationError NameRequired))
        else
          (case topic_id of
             None \<Rightarrow> (s, Inl (ValidationError TopicIDRequired))
           | Some k \<Rightarrow>
              if k = [] then (s, Inl (ValidationError TopicIDRequired))
              else if find_topic s (Some k) = None then (s, Inl (ValidationError TopicNotFound))
              else
                (let x = \<lparr>skill_id = new_id, skill_name = name, skill_topic_id = k,
                          skill_difficulty = difficulty\<rparr>
                 in (add_skill x s, Inr x))))"

definition update_skill :: "string \<Rightarrow> skill_payload \<Rightarrow> store \<Rightarrow> store \<times> (error + skill)" where
  "update_skill i payload s =
    (case find_skill s (Some i) of
       None \<Rightarrow> (s, Inl NotFound)
     | Some x \<Rightarrow>
        (let name = strip (or_else (get (sp_name payload)) (skill_name x));
             topic_id = get_default (sp_topicID payload)
                          (get_default (sp_topicId payload) (Some (skill_topic_id x)));
             difficulty = strip (or_else (get (sp_difficulty payload)) (skill_difficulty x))
         in (case topic_id of
               None \<Rightarrow> (s, Inl (ValidationError TopicNotFound))
             | Some k \<Rightarrow>
                if find_topic s (Some k) = None then (s, Inl (ValidationError TopicNotFound))
                else
                  (let x' = x\<lparr>skill_name := name, skill_topic_id := k,
                              skill_difficulty := difficulty\<rparr>
                   in (put_skill x' s, Inr x')))))"

definition delete_skill :: "string \<Rightarrow> store \<Rightarrow> store \<times> (error + unit)" where
  "delete_skill i s =
    (case find_skill s (Some i) of
       None \<Rightarrow> (s, Inl NotFound)
     | Some x \<Rightarrow> (remove_skill i s, Inr ()))"

subsection \<open>Listing: search, filter, order, page\<close>

text \<open>
  \<^verbatim>\<open>name.ilike(f"%{q}%")\<close> is the SQL operator \<^verbatim>\<open>ILIKE\<close> on the pattern made of \<^verbatim>\<open>q\<close>
  between two percent signs. In a pattern a percent sign stands for any run of
  characters, an underscore for any one character, and a backslash takes the character
  after it literally; \<^verbatim>\<open>ILIKE\<close> compares without regard to letter case (here the case
  of the letters A to Z). The argument
  \<^verbatim>\<open>q\<close> goes into the pattern as it is. (A pattern that ends in a lone backslash is
  rejected by the database; the patterns built here end in a percent sign, so the
  backslash always has a successor, and that branch answers \<open>False\<close>.)
\<close>

definition lower :: "char \<Rightarrow> char" where
  "lower c = (let n = (of_char c :: nat) in if 65 \<le> n \<and> n \<le> 90 then char_of (n + 32) else c)"

fun like :: "string \<Rightarrow> string \<Rightarrow> bool" where
  "like [] v = (v = [])"
| "like (p # ps) v =
    (if p = CHR ''%'' then
       (like ps v \<or> (case v of [] \<Rightarrow> False | c # cs \<Rightarrow> like (p # ps) cs))
     else if p = CHR ''_'' then
       (case v of [] \<Rightarrow> False | c # cs \<Rightarrow> like ps cs)
     else if p = CHR 0x5C then
       (case ps of
          [] \<Rightarrow> False
        | e # es \<Rightarrow> (case v of [] \<Rightarrow> False | c # cs \<Rightarrow> c = e \<and> like es cs))
     else
       (case v of [] \<Rightarrow> False | c # cs \<Rightarrow> c = p \<and> like ps cs))"

definition ilike :: "string \<Rightarrow> string \<Rightarrow> bool" where
  "ilike v pat = like (map lower pat) (map lower v)"

definition name_pattern :: "string \<Rightarrow> string" where
  "name_pattern q = CHR ''%'' # q @ [CHR ''%'']"

text \<open>
  \<^verbatim>\<open>min(int(request.args.get("limit", 50)), 200)\<close> and
  \<^verbatim>\<open>max(int(request.args.get("offset", 0)), 0)\<close>, on the integer the argument denotes
  (\<open>None\<close> when the argument is absent).
\<close>

definition clamp_limit :: "int option \<Rightarrow> int" where
  "clamp_limit a = min (case a of None \<Rightarrow> 50 | Some n \<Rightarrow> n) 200"

definition clamp_offset :: "int option \<Rightarrow> int" where
  "clamp_offset a = max (case a of None \<Rightarrow> 0 | Some n \<Rightarrow> n) 0"

text \<open>
  \<^verbatim>\<open>query.order_by(name.asc()).limit(limit).offset(offset).all()\<close>: the rows in the
  order of their names, the first \<open>offset\<close> skipped, at most \<open>limit\<close> returned. The
  only sort key is the name, compared character by character; rows of equal names stay
  in row order. PostgreSQL rejects a negative \<^verbatim>\<open>LIMIT\<close> and an \<^verbatim>\<open>OFFSET\<close> that is not a
  64-bit integer (2 to the power 63, or more), and the driver refuses a search or filter argument
  with the character of code 0; the handler catches none of these.
\<close>

definition page :: "int \<Rightarrow> int \<Rightarrow> 'a list \<Rightarrow> error + 'a list" where
  "page limit offset rows =
     (if limit < 0 \<or> 2 ^ 63 \<le> offset then Inl DatabaseError
      else Inr (take (nat limit) (drop (nat offset) rows)))"

record 'a listing =
  data :: "'a list"
  total :: nat
  meta_limit :: int
  meta_offset :: int

definition topic_query :: "string option \<Rightarrow> string option \<Rightarrow> store \<Rightarrow> topic list" where
  "topic_query q parent_id s =
    (let query = topics s;
         query = (case q of
                    None \<Rightarrow> query
                  | Some v \<Rightarrow>
                     if v \<noteq> [] then filter (\<lambda>t. ilike (topic_name t) (name_pattern v)) query
                     else query);
         query = (if truthy parent_id then filter (\<lambda>t. parent_topic_id t = parent_id) query
                  else query)
     in query)"

definition list_topics ::
  "string option \<Rightarrow> string option \<Rightarrow> int option \<Rightarrow> int option \<Rightarrow> store \<Rightarrow> error + topic listing" where
  "list_topics q parent_id limit_arg offset_arg s =
    (let limit = clamp_limit limit_arg;
         offset = clamp_offset offset_arg;
         query = topic_query q parent_id s;
         total = length query
     in if \<not> (arg_ok q \<and> arg_ok parent_id) then Inl DatabaseError
        else
          (case page limit offset (sort_key topic_name query) of
             Inl e \<Rightarrow> Inl e
           | Inr items \<Rightarrow>
              Inr \<lparr>data = items, total = total, meta_limit = limit, meta_offset = offset\<rparr>))"

definition skill_query :: "string option \<Rightarrow> string option \<Rightarrow> store \<Rightarrow> skill list" where
  "skill_query q topic_arg s =
    (let query = skills s;
         query = (case q of
                    None \<Rightarrow> query
                  | Some v \<Rightarrow>
                     if v \<noteq> [] then filter (\<lambda>x. ilike (skill_name x) (name_pattern v)) query
                     else query);
         query = (if truthy topic_arg then filter (\<lambda>x. Some (skill_topic_id x) = topic_arg) query
                  else query)
     in query)"

definition list_skills ::
  "string option \<Rightarrow> string option \<Rightarrow> int option \<Rightarrow> int option \<Rightarrow> store \<Rightarrow> error + skill listing" where
  "list_skills q topic_arg limit_arg offset_arg s =
    (let limit = clamp_limit limit_arg;
         offset = clamp_offset offset_arg;
         query = skill_query q topic_arg s;
         total = length query
     in if \<not> (arg_ok q \<and> arg_ok topic_arg) then Inl DatabaseError
        else
          (case page limit offset (sort_key skill_name query) of
             Inl e \<Rightarrow> Inl e
           | Inr items \<Rightarrow>
              Inr \<lparr>data = items, total = total, meta_limit = limit, meta_offset = offset\<rparr>))"

subsection \<open>Sequences of requests\<close>

text \<open>
  A request that changes the store, and the store after it. A creating request carries
  the identifier generated for the new row; \<open>admissible\<close> says that this identifier is
  a new one (not empty, not the identifier of a row of that table), as the generator
  of unique identifiers makes it. \<open>run\<close> serves a list of requests in order and is
  \<open>None\<close> when a request is not admissible.
\<close>

datatype request =
    CreateTopic string topic_payload
  | UpdateTopic string topic_payload
  | DeleteTopic string
  | CreateSkill string skill_payload
  | UpdateSkill string skill_payload
  | DeleteSkill string

fun serve :: "request \<Rightarrow> store \<Rightarrow> store" where
  "serve (CreateTopic new_id payload) s = fst (create_topic new_id payload s)"
| "serve (UpdateTopic i payload) s = fst (update_topic i payload s)"
| "serve (DeleteTopic i) s = fst (delete_topic i s)"
| "serve (CreateSkill new_id payload) s = fst (create_skill new_id payload s)"
| "serve (UpdateSkill i payload) s = fst (update_skill i payload s)"
| "serve (DeleteSkill i) s = fst (delete_skill i s)"

fun failed :: "request \<Rightarrow> store \<Rightarrow> error option" where
  "failed (CreateTopic new_id payload) s =
     (case snd (create_topic new_id payload s) of Inl e \<Rightarrow> Some e | Inr _ \<Rightarrow> None)"
| "failed (UpdateTopic i payload) s =
     (case snd (update_topic i payload s) of Inl e \<Rightarrow> Some e | Inr _ \<Rightarrow> None)"
| "failed (DeleteTopic i) s =
     (case snd (delete_topic i s) of Inl e \<Rightarrow> Some e | Inr _ \<Rightarrow> None)"
| "failed (CreateSkill new_id payload) s =
     (case snd (create_skill new_id payload s) of Inl e \<Rightarrow> Some e | Inr _ \<Rightarrow> None)"
| "failed (UpdateSkill i payload) s =
     (case snd (update_skill i payload s) of Inl e \<Rightarrow> Some e | Inr _ \<Rightarrow> None)"
| "failed (DeleteSkill i) s =
     (case snd (delete_skill i s) of Inl e \<Rightarrow> Some e | Inr _ \<Rightarrow> None)"

fun admissible :: "request \<Rightarrow> store \<Rightarrow> bool" where
  "admissible (CreateTopic new_id payload) s =
     (new_id \<noteq> [] \<and> new_id \<notin> set (map topic_id (topics s)))"
| "admissible (CreateSkill new_id payload) s =
     (new_id \<noteq> [] \<and> new_id \<notin> set (map skill_id (skills s)))"
| "admissible r s = True"

fun run :: "request list \<Rightarrow> store \<Rightarrow> store option" where
  "run [] s = Some s"
| "run (r # rs) s = (if admissible r s then run rs (serve r s) else None)"

text \<open>The two referential invariants of the data model, as checks on a store.\<close>

definition skills_reference_topics :: "store \<Rightarrow> bool" where
  "skills_reference_topics s =
     list_all (\<lambda>x. find_topic s (Some (skill_topic_id x)) \<noteq> None) (skills s)"

definition parents_reference_topics :: "store \<Rightarrow> bool" where
  "parents_reference_topics s =
     list_all (\<lambda>t. parent_topic_id t = None \<or> find_topic s (parent_topic_id t) \<noteq> None) (topics s)"

text \<open>Every stored topic name is its own \<open>strip\<close>.\<close>

definition names_trimmed :: "store \<Rightarrow> bool" where
  "names_trimmed s = list_all (\<lambda>t. strip (topic_name t) = topic_name t) (topics s)"

subsection \<open>Notions the properties are stated with\<close>

text \<open>
  The words of the specification, as definitions of their own: a name contains \<open>q\<close>
  without regard to letter case; a list of topics is ordered by name and, among equal
  names, by identifier; an answer is a validation error.
\<close>

fun starts_with :: "string \<Rightarrow> string \<Rightarrow> bool" where
  "starts_with v [] = True"
| "starts_with [] (p # ps) = False"
| "starts_with (c # cs) (p # ps) = (c = p \<and> starts_with cs ps)"

fun contains :: "string \<Rightarrow> string \<Rightarrow> bool" where
  "contains [] q = (q = [])"
| "contains (c # cs) q = (starts_with (c # cs) q \<or> contains cs q)"

definition contains_ci :: "string \<Rightarrow> string \<Rightarrow> bool" where
  "contains_ci v q = contains (map lower v) (map lower q)"

definition wildcard :: "char \<Rightarrow> bool" where
  "wildcard c = (c = CHR ''%'' \<or> c = CHR ''_'' \<or> c = CHR 0x5C)"

definition wildcard_free :: "string \<Rightarrow> bool" where
  "wildcard_free q = (filter wildcard q = [])"

definition topics_by_name_then_id :: "topic list \<Rightarrow> bool" where
  "topics_by_name_then_id ts =
     sorted_wrt (\<lambda>a b. topic_name a < topic_name b \<or>
                       (topic_name a = topic_name b \<and> topic_id a \<le> topic_id b)) ts"

fun is_validation_error :: "error + 'a \<Rightarrow> bool" where
  "is_validation_error (Inl (ValidationError r)) = True"
| "is_validation_error other = False"

text \<open>Rows and payloads of the examples.\<close>

abbreviation topic_row :: "string \<Rightarrow> string \<Rightarrow> string option \<Rightarrow> topic" where
  "topic_row i n p \<equiv>
     \<lparr>topic_id = i, topic_name = n, topic_description = None, parent_topic_id = p\<rparr>"

abbreviation skill_row :: "string \<Rightarrow> string \<Rightarrow> string \<Rightarrow> string \<Rightarrow> skill" where
  "skill_row i n k d \<equiv>
     \<lparr>skill_id = i, skill_name = n, skill_topic_id = k, skill_difficulty = d\<rparr>"

abbreviation topic_body :: "jfield \<Rightarrow> jfield \<Rightarrow> topic_payload" where
  "topic_body n p \<equiv> \<lparr>tp_name = n, tp_description = Absent, tp_parentTopicID = p\<rparr>"

abbreviation skill_body :: "jfield \<Rightarrow> jfield \<Rightarrow> jfield \<Rightarrow> skill_payload" where
  "skill_body n k d \<equiv> \<lparr>sp_name = n, sp_topicID = k, sp_topicId = Absent, sp_difficulty = d\<rparr>"

section \<open>Properties\<close>

subsection \<open>Lookups and storage\<close>

lemma find_topic_None_iff:
  "(find_topic s (Some i) = None) = (i \<notin> topic_id ` set (topics s))"
  by (auto simp: find_topic_def find_None_iff)

lemma find_topic_SomeD:
  "find_topic s k = Some t \<Longrightarrow> k = Some (topic_id t) \<and> t \<in> set (topics s)"
  by (auto simp: find_topic_def find_Some_iff split: option.splits)

lemma find_skill_None_iff:
  "(find_skill s (Some i) = None) = (i \<notin> skill_id ` set (skills s))"
  by (auto simp: find_skill_def find_None_iff)

lemma find_skill_SomeD:
  "find_skill s k = Some x \<Longrightarrow> k = Some (skill_id x) \<and> x \<in> set (skills s)"
  by (auto simp: find_skill_def find_Some_iff split: option.splits)

lemma topic_has_skills_iff:
  "topic_has_skills s i = (\<exists>x \<in> set (skills s). skill_topic_id x = i)"
  by (auto simp: topic_has_skills_def)


lemma put_topic_ids: "map topic_id (topics (put_topic t s)) = map topic_id (topics s)"
  by (simp add: put_topic_def)

lemma put_topic_id_set: "topic_id ` set (topics (put_topic t s)) = topic_id ` set (topics s)"
  using put_topic_ids [of t s] by (metis set_map)

lemma put_topic_skills: "skills (put_topic t s) = skills s"
  by (simp add: put_topic_def)

lemma find_put_topic:
  "find_topic s (Some (topic_id t)) \<noteq> None \<Longrightarrow> find_topic (put_topic t s) (Some (topic_id t)) = Some t"
proof -
  have "find (\<lambda>r. topic_id r = topic_id t) ts \<noteq> None \<Longrightarrow>
        find (\<lambda>r. topic_id r = topic_id t) (map (\<lambda>r. if topic_id r = topic_id t then t else r) ts) = Some t" for ts
    by (induction ts) auto
  then show "find_topic s (Some (topic_id t)) \<noteq> None \<Longrightarrow> ?thesis"
    by (simp add: find_topic_def put_topic_def)
qed

subsection \<open>Whitespace\<close>

lemma strip_no_leading_space: "dropWhile is_space (strip v) = strip v"
proof -
  let ?t = "dropWhile is_space v"
  have t: "?t = [] \<or> \<not> is_space (hd ?t)"
    by (metis hd_dropWhile)
  have split: "?t = strip v @ rev (takeWhile is_space (rev ?t))"
    by (metis strip_def rev_append rev_rev_ident takeWhile_dropWhile_id)
  show ?thesis
  proof (cases "strip v = []")
    case True
    then show ?thesis by simp
  next
    case False
    with split have "hd ?t = hd (strip v)" by (metis hd_append2)
    moreover from False split have "?t \<noteq> []" by (metis append_is_Nil_conv)
    ultimately have "\<not> is_space (hd (strip v))" using t by metis
    then show ?thesis unfolding dropWhile_eq_self_iff by blast
  qed
qed

lemma strip_idem: "strip (strip v) = strip v"
proof -
  have "strip (strip v) = rev (dropWhile is_space (rev (strip v)))"
    by (simp add: strip_def [of "strip v"] strip_no_leading_space)
  also have "rev (strip v) = dropWhile is_space (rev (dropWhile is_space v))"
    by (simp add: strip_def)
  also have "dropWhile is_space (dropWhile is_space (rev (dropWhile is_space v)))
      = dropWhile is_space (rev (dropWhile is_space v))"
    by (simp add: dropWhile_idem)
  finally show ?thesis by (simp add: strip_def)
qed

lemma strip_beginner: "strip ''beginner'' = ''beginner''"
  by (simp add: strip_def is_space_def)

subsection \<open>Deleting a topic\<close>



subsection \<open>Skills refer to existing topics\<close>

lemma skills_ok_iff:
  "skills_reference_topics s =
     (\<forall>x \<in> set (skills s). skill_topic_id x \<in> topic_id ` set (topics s))"
  by (simp add: skills_reference_topics_def list_all_iff find_topic_None_iff)

lemma create_topic_skills_ok:
  "skills_reference_topics s \<Longrightarrow> skills_reference_topics (fst (create_topic n p s))"
  by (auto simp: create_topic_def Let_def skills_ok_iff add_topic_def)

lemma update_topic_skills_ok:
  "skills_reference_topics s \<Longrightarrow> skills_reference_topics (fst (update_topic i p s))"
  by (simp add: update_topic_def Let_def skills_ok_iff put_topic_id_set put_topic_skills
      split: option.splits)

lemma delete_topic_skills_ok:
  "skills_reference_topics s \<Longrightarrow> skills_reference_topics (fst (delete_topic i s))"
  by (auto simp: delete_topic_def skills_ok_iff remove_topic_def topic_has_skills_iff image_iff
      split: option.splits)

lemma create_skill_skills_ok:
  "skills_reference_topics s \<Longrightarrow> skills_reference_topics (fst (create_skill n p s))"
  by (auto simp: create_skill_def Let_def skills_ok_iff add_skill_def find_topic_None_iff
      split: option.splits)

lemma update_skill_skills_ok:
  "skills_reference_topics s \<Longrightarrow> skills_reference_topics (fst (update_skill i p s))"
  by (auto simp: update_skill_def Let_def skills_ok_iff put_skill_def find_topic_None_iff
      split: option.splits)

lemma delete_skill_skills_ok:
  "skills_reference_topics s \<Longrightarrow> skills_reference_topics (fst (delete_skill i s))"
  by (auto simp: delete_skill_def skills_ok_iff remove_skill_def split: option.splits)

lemma serve_skills_ok:
  "skills_reference_topics s \<Longrightarrow> skills_reference_topics (serve r s)"
  by (cases r)
     (simp_all add: create_topic_skills_ok update_topic_skills_ok delete_topic_skills_ok
        create_skill_skills_ok update_skill_skills_ok delete_skill_skills_ok)

lemma run_skills_ok:
  "skills_reference_topics s \<Longrightarrow> run rs s = Some s' \<Longrightarrow> skills_reference_topics s'"
proof (induction rs arbitrary: s)
  case Nil
  then show ?case by simp
next
  case (Cons r rs)
  from Cons.prems(2) have "run rs (serve r s) = Some s'"
    by (simp split: if_splits)
  with Cons.IH [OF serve_skills_ok [OF Cons.prems(1)]] show ?case .
qed

lemma create_skill_checks_topic:
  "create_skill n p s = (s', Inr x) \<Longrightarrow> find_topic s (Some (skill_topic_id x)) \<noteq> None"
  by (auto simp: create_skill_def Let_def split: option.splits if_splits)

lemma update_skill_checks_topic:
  "update_skill i p s = (s', Inr x) \<Longrightarrow> find_topic s (Some (skill_topic_id x)) \<noteq> None"
  by (auto simp: update_skill_def Let_def split: option.splits if_splits)

lemma update_skill_rechecks_unchanged:
  "find_skill s (Some i) = Some x \<Longrightarrow> sp_topicID p = Absent \<Longrightarrow> sp_topicId p = Absent \<Longrightarrow>
   find_topic s (Some (skill_topic_id x)) = None \<Longrightarrow>
   update_skill i p s = (s, Inl (ValidationError TopicNotFound))"
  by (simp add: update_skill_def Let_def)

text \<open>
  Claim C2. In every store reached from the empty store by requests that create, update
  and delete topics and skills, every skill's topic identifier is the identifier of a
  stored topic. The handlers keep it so: a skill is created or updated only when the
  topic it resolves to exists (an update that leaves the topic identifier out is
  checked against the stored one and refused when that topic is missing), and a topic
  is deleted only when no skill refers to it.
\<close>

theorem skills_reference_existing_topics:
  "(run rs empty_store = Some s \<longrightarrow>
      skills_reference_topics s \<and>
      (\<forall>x \<in> set (skills s). \<exists>t \<in> set (topics s). topic_id t = skill_topic_id x)) \<and>
   (create_skill n p s1 = (s1', Inr x1) \<longrightarrow> find_topic s1 (Some (skill_topic_id x1)) \<noteq> None) \<and>
   (update_skill i q s2 = (s2', Inr x2) \<longrightarrow> find_topic s2 (Some (skill_topic_id x2)) \<noteq> None) \<and>
   (find_skill s3 (Some j) = Some x3 \<and> sp_topicID u = Absent \<and> sp_topicId u = Absent \<and>
      find_topic s3 (Some (skill_topic_id x3)) = None \<longrightarrow>
      update_skill j u s3 = (s3, Inl (ValidationError TopicNotFound))) \<and>
   (delete_topic k s4 = (s4', Inr ()) \<longrightarrow> \<not> (\<exists>x \<in> set (skills s4). skill_topic_id x = k))"
proof -
  have "skills_reference_topics empty_store"
    by (simp add: skills_reference_topics_def empty_store_def)
  then have a: "run rs empty_store = Some s \<longrightarrow> skills_reference_topics s"
    using run_skills_ok by blast
  have b: "skills_reference_topics s \<longrightarrow>
      (\<forall>x \<in> set (skills s). \<exists>t \<in> set (topics s). topic_id t = skill_topic_id x)"
    unfolding skills_ok_iff by (metis imageE)
  have c: "delete_topic k s4 = (s4', Inr ()) \<longrightarrow>
      \<not> (\<exists>x \<in> set (skills s4). skill_topic_id x = k)"
    by (auto simp: delete_topic_def topic_has_skills_iff split: option.splits if_splits)
  show ?thesis
    using a b c create_skill_checks_topic update_skill_checks_topic
      update_skill_rechecks_unchanged
    by blast
qed

theorem skills_reference_existing_topics_witness:
  "run [CreateTopic ''T1'' (topic_body (Str ''Math'') Absent),
        CreateSkill ''S1'' (skill_body (Str ''Addition'') (Str ''T1'') Absent),
        DeleteTopic ''T1'',
        UpdateSkill ''S1'' (skill_body (Str ''Sums'') Absent Absent)] empty_store
     = Some \<lparr>topics = [topic_row ''T1'' ''Math'' None],
             skills = [skill_row ''S1'' ''Sums'' ''T1'' ''beginner'']\<rparr> \<and>
   skills_reference_topics \<lparr>topics = [topic_row ''T1'' ''Math'' None],
             skills = [skill_row ''S1'' ''Sums'' ''T1'' ''beginner'']\<rparr> \<and>
   create_skill ''S2'' (skill_body (Str ''Lines'') (Str ''T1'') Absent)
       \<lparr>topics = [topic_row ''T1'' ''Math'' None], skills = []\<rparr>
     = (\<lparr>topics = [topic_row ''T1'' ''Math'' None],
         skills = [skill_row ''S2'' ''Lines'' ''T1'' ''beginner'']\<rparr>,
        Inr (skill_row ''S2'' ''Lines'' ''T1'' ''beginner'')) \<and>
   find_topic \<lparr>topics = [topic_row ''T1'' ''Math'' None], skills = []\<rparr> (Some ''T1'') \<noteq> None \<and>
   update_skill ''S1'' (skill_body (Str ''Sums'') Absent Absent)
       \<lparr>topics = [], skills = [skill_row ''S1'' ''Addition'' ''T1'' ''beginner'']\<rparr>
     = (\<lparr>topics = [], skills = [skill_row ''S1'' ''Addition'' ''T1'' ''beginner'']\<rparr>,
        Inl (ValidationError TopicNotFound)) \<and>
   delete_topic ''T1'' \<lparr>topics = [topic_row ''T1'' ''Math'' None], skills = []\<rparr>
     = (\<lparr>topics = [], skills = []\<rparr>, Inr ())"
proof -
  let ?rs = "[CreateTopic ''T1'' (topic_body (Str ''Math'') Absent),
        CreateSkill ''S1'' (skill_body (Str ''Addition'') (Str ''T1'') Absent),
        DeleteTopic ''T1'',
        UpdateSkill ''S1'' (skill_body (Str ''Sums'') Absent Absent)]"
  let ?s = "\<lparr>topics = [topic_row ''T1'' ''Math'' None],
             skills = [skill_row ''S1'' ''Sums'' ''T1'' ''beginner'']\<rparr>"
  let ?s1 = "\<lparr>topics = [topic_row ''T1'' ''Math'' None], skills = []\<rparr>"
  let ?s3 = "\<lparr>topics = [], skills = [skill_row ''S1'' ''Addition'' ''T1'' ''beginner'']\<rparr>"
  have r: "run ?rs empty_store = Some ?s"
    by code_simp
  have c: "create_skill ''S2'' (skill_body (Str ''Lines'') (Str ''T1'') Absent) ?s1
     = (\<lparr>topics = [topic_row ''T1'' ''Math'' None],
         skills = [skill_row ''S2'' ''Lines'' ''T1'' ''beginner'']\<rparr>,
        Inr (skill_row ''S2'' ''Lines'' ''T1'' ''beginner''))"
    by code_simp
  have f: "find_skill ?s3 (Some ''S1'') = Some (skill_row ''S1'' ''Addition'' ''T1'' ''beginner'')"
    "find_topic ?s3 (Some ''T1'') = None"
    by (simp_all add: find_skill_def find_topic_def)
  have d: "delete_topic ''T1'' ?s1 = (\<lparr>topics = [], skills = []\<rparr>, Inr ())"
    by code_simp
  from r c f d
    skills_reference_existing_topics [where rs = ?rs and s = ?s
      and n = "''S2''" and p = "skill_body (Str ''Lines'') (Str ''T1'') Absent" and ?s1.0 = ?s1
      and s1' = "\<lparr>topics = [topic_row ''T1'' ''Math'' None],
         skills = [skill_row ''S2'' ''Lines'' ''T1'' ''beginner'']\<rparr>"
      and ?x1.0 = "skill_row ''S2'' ''Lines'' ''T1'' ''beginner''"
      and j = "''S1''" and u = "skill_body (Str ''Sums'') Absent Absent" and ?s3.0 = ?s3
      and ?x3.0 = "skill_row ''S1'' ''Addition'' ''T1'' ''beginner''"
      and k = "''T1''" and ?s4.0 = ?s1 and s4' = "\<lparr>topics = [], skills = []\<rparr>"]
  show ?thesis by simp
qed

subsection \<open>Limit and offset\<close>

lemma list_topics_eq:
  "list_topics q k a b s =
     (if \<not> (arg_ok q \<and> arg_ok k) \<or> clamp_limit a < 0 \<or> 2 ^ 63 \<le> clamp_offset b
      then Inl DatabaseError
      else Inr \<lparr>data = take (nat (clamp_limit a))
                         (drop (nat (clamp_offset b)) (sort_key topic_name (topic_query q k s))),
                total = length (topic_query q k s),
                meta_limit = clamp_limit a, meta_offset = clamp_offset b\<rparr>)"
  by (simp add: list_topics_def page_def Let_def)

lemma list_skills_eq:
  "list_skills q k a b s =
     (if \<not> (arg_ok q \<and> arg_ok k) \<or> clamp_limit a < 0 \<or> 2 ^ 63 \<le> clamp_offset b
      then Inl DatabaseError
      else Inr \<lparr>data = take (nat (clamp_limit a))
                         (drop (nat (clamp_offset b)) (sort_key skill_name (skill_query q k s))),
                total = length (skill_query q k s),
                meta_limit = clamp_limit a, meta_offset = clamp_offset b\<rparr>)"
  by (simp add: list_skills_def page_def Let_def)

lemma list_topics_meta:
  "list_topics q k a b s = Inr r \<Longrightarrow>
     meta_limit r = clamp_limit a \<and> meta_offset r = clamp_offset b"
  by (auto simp: list_topics_eq split: if_splits)

lemma list_skills_meta:
  "list_skills q k a b s = Inr r \<Longrightarrow>
     meta_limit r = clamp_limit a \<and> meta_offset r = clamp_offset b"
  by (auto simp: list_skills_eq split: if_splits)

text \<open>
  Claim C7. The limit of a listing is 50 when the argument is absent and otherwise the
  smaller of the argument and 200, so a value of 0 or less goes through as it is; the
  offset is 0 when absent and otherwise the larger of the argument and 0. A limit of
  1000 gives 200 and an offset of -5 gives 0. Both listings answer with these values.
\<close>

theorem limit_offset_clamped:
  "clamp_limit None = 50 \<and> clamp_limit (Some n) = min n 200 \<and> clamp_limit a \<le> 200 \<and>
   (n \<le> 0 \<longrightarrow> clamp_limit (Some n) = n) \<and>
   clamp_offset None = 0 \<and> clamp_offset (Some m) = max m 0 \<and> 0 \<le> clamp_offset b \<and>
   clamp_limit (Some 1000) = 200 \<and> clamp_offset (Some (- 5)) = 0 \<and>
   (list_topics q k a b s = Inr r \<longrightarrow>
      meta_limit r = clamp_limit a \<and> meta_offset r = clamp_offset b) \<and>
   (list_skills q k a b s = Inr r' \<longrightarrow>
      meta_limit r' = clamp_limit a \<and> meta_offset r' = clamp_offset b)"
proof -
  have "clamp_limit None = 50" "clamp_limit (Some n) = min n 200" "clamp_limit a \<le> 200"
    "n \<le> 0 \<longrightarrow> clamp_limit (Some n) = n" "clamp_limit (Some 1000) = 200"
    by (simp_all add: clamp_limit_def)
  moreover have "clamp_offset None = 0" "clamp_offset (Some m) = max m 0" "0 \<le> clamp_offset b"
    "clamp_offset (Some (- 5)) = 0"
    by (simp_all add: clamp_offset_def)
  ultimately show ?thesis using list_topics_meta list_skills_meta by blast
qed


theorem limit_offset_clamped_witness:
  "clamp_limit (Some (- 3)) = - 3 \<and>
   list_topics None None (Some 1000) (Some (- 5)) \<lparr>topics = [topic_row ''T1'' ''Math'' None], skills = []\<rparr>
     = Inr \<lparr>data = [topic_row ''T1'' ''Math'' None], total = 1, meta_limit = 200, meta_offset = 0\<rparr> \<and>
   list_skills None None (Some 1000) (Some (- 5)) \<lparr>topics = [topic_row ''T1'' ''Math'' None], skills = []\<rparr>
     = Inr \<lparr>data = [], total = 0, meta_limit = 200, meta_offset = 0\<rparr>"
proof -
  have a: "list_topics None None (Some 1000) (Some (- 5))
      \<lparr>topics = [topic_row ''T1'' ''Math'' None], skills = []\<rparr>
     = Inr \<lparr>data = [topic_row ''T1'' ''Math'' None], total = 1,
            meta_limit = clamp_limit (Some 1000), meta_offset = clamp_offset (Some (- 5))\<rparr>"
    by (simp add: list_topics_def topic_query_def page_def Let_def clamp_limit_def clamp_offset_def)
  have b: "list_skills None None (Some 1000) (Some (- 5))
      \<lparr>topics = [topic_row ''T1'' ''Math'' None], skills = []\<rparr>
     = Inr \<lparr>data = [], total = 0,
            meta_limit = clamp_limit (Some 1000), meta_offset = clamp_offset (Some (- 5))\<rparr>"
    by (simp add: list_skills_def skill_query_def page_def Let_def clamp_limit_def clamp_offset_def)
  from a b limit_offset_clamped [of "- 3" "Some 1000" 0 "Some (- 5)" None None
      "\<lparr>topics = [topic_row ''T1'' ''Math'' None], skills = []\<rparr>"]
  show ?thesis by simp
qed

subsection \<open>Errors change nothing\<close>

lemma serve_failed_unchanged: "failed r s = Some e \<Longrightarrow> serve r s = s"
  by (cases r)
     (auto simp: create_topic_def update_topic_def delete_topic_def create_skill_def
        update_skill_def delete_skill_def Let_def split: option.splits if_splits sum.splits)

text \<open>
  Claim C10. Whenever a creating, updating or deleting handler answers with an error,
  the store it returns is the store it was given; the error is one of \<open>NotFound\<close>,
  \<open>ValidationError\<close> and \<open>Conflict\<close>.
\<close>

theorem errors_leave_store_unchanged:
  "(create_topic n p s = (s', Inl e) \<longrightarrow> s' = s) \<and>
   (update_topic i p s = (s', Inl e) \<longrightarrow> s' = s) \<and>
   (delete_topic i s = (s', Inl e) \<longrightarrow> s' = s) \<and>
   (create_skill n u s = (s', Inl e) \<longrightarrow> s' = s) \<and>
   (update_skill i u s = (s', Inl e) \<longrightarrow> s' = s) \<and>
   (delete_skill i s = (s', Inl e) \<longrightarrow> s' = s) \<and>
   (failed r s = Some e \<longrightarrow> serve r s = s \<and> e \<noteq> DatabaseError)"
proof -
  have "failed r s = Some e \<Longrightarrow> e \<noteq> DatabaseError"
    by (cases r)
     (auto simp: create_topic_def update_topic_def delete_topic_def create_skill_def
        update_skill_def delete_skill_def Let_def split: option.splits if_splits sum.splits)
  moreover have "create_topic n p s = (s', Inl e) \<longrightarrow> s' = s"
    using serve_failed_unchanged [of "CreateTopic n p" s e] by auto
  moreover have "update_topic i p s = (s', Inl e) \<longrightarrow> s' = s"
    using serve_failed_unchanged [of "UpdateTopic i p" s e] by auto
  moreover have "delete_topic i s = (s', Inl e) \<longrightarrow> s' = s"
    using serve_failed_unchanged [of "DeleteTopic i" s e] by auto
  moreover have "create_skill n u s = (s', Inl e) \<longrightarrow> s' = s"
    using serve_failed_unchanged [of "CreateSkill n u" s e] by auto
  moreover have "update_skill i u s = (s', Inl e) \<longrightarrow> s' = s"
    using serve_failed_unchanged [of "UpdateSkill i u" s e] by auto
  moreover have "delete_skill i s = (s', Inl e) \<longrightarrow> s' = s"
    using serve_failed_unchanged [of "DeleteSkill i" s e] by auto
  ultimately show ?thesis using serve_failed_unchanged by blast
qed

theorem errors_leave_store_unchanged_witness:
  "create_topic ''T2'' (topic_body (Str ''  '') Absent) \<lparr>topics = [topic_row ''T1'' ''Math'' None],
      skills = [skill_row ''S1'' ''Addition'' ''T1'' ''beginner'']\<rparr>
     = (\<lparr>topics = [topic_row ''T1'' ''Math'' None],
      skills = [skill_row ''S1'' ''Addition'' ''T1'' ''beginner'']\<rparr>, Inl (ValidationError NameRequired)) \<and>
   failed (DeleteTopic ''T1'') \<lparr>topics = [topic_row ''T1'' ''Math'' None],
      skills = [skill_row ''S1'' ''Addition'' ''T1'' ''beginner'']\<rparr> = Some Conflict \<and>
   serve (DeleteTopic ''T1'') \<lparr>topics = [topic_row ''T1'' ''Math'' None],
      skills = [skill_row ''S1'' ''Addition'' ''T1'' ''beginner'']\<rparr>
     = \<lparr>topics = [topic_row ''T1'' ''Math'' None],
      skills = [skill_row ''S1'' ''Addition'' ''T1'' ''beginner'']\<rparr> \<and>
   failed (UpdateSkill ''S9'' (skill_body Absent Absent Absent)) \<lparr>topics = [topic_row ''T1'' ''Math'' None],
      skills = [skill_row ''S1'' ''Addition'' ''T1'' ''beginner'']\<rparr> = Some NotFound"
proof -
  let ?s = "\<lparr>topics = [topic_row ''T1'' ''Math'' None],
      skills = [skill_row ''S1'' ''Addition'' ''T1'' ''beginner'']\<rparr>"
  have a: "snd (create_topic ''T2'' (topic_body (Str ''  '') Absent) ?s) = Inl (ValidationError NameRequired)"
    by code_simp
  have b: "failed (DeleteTopic ''T1'') ?s = Some Conflict" by code_simp
  have c: "failed (UpdateSkill ''S9'' (skill_body Absent Absent Absent)) ?s = Some NotFound"
    by code_simp
  from a b c
    errors_leave_store_unchanged [of "''T2''" "topic_body (Str ''  '') Absent" ?s
      "fst (create_topic ''T2'' (topic_body (Str ''  '') Absent) ?s)" "ValidationError NameRequired"]
    errors_leave_store_unchanged [where r = "DeleteTopic ''T1''" and s = ?s and e = Conflict]
  show ?thesis by (metis prod.collapse)
qed

subsection \<open>Parents of topics\<close>

text \<open>
  Claim C3. The claim is that in every store reached from the empty store a topic
  whose parent is set has a stored topic as its parent. The code does not keep this:
  after creating a topic, creating a second one with the first as its parent, and
  deleting the first (which succeeds, since \<open>delete_topic\<close> looks at skills only), the
  second topic's parent is the identifier of no stored topic. An update of that topic
  which does not mention the parent is then refused, because \<open>update_topic\<close> checks
  the stored parent again.
\<close>

theorem delete_parent_topic_dangling:
  "run [CreateTopic ''T1'' (topic_body (Str ''Math'') Absent),
        CreateTopic ''T2'' (topic_body (Str ''Algebra'') (Str ''T1'')),
        DeleteTopic ''T1''] empty_store
     = Some \<lparr>topics = [topic_row ''T2'' ''Algebra'' (Some ''T1'')], skills = []\<rparr> \<and>
   parent_topic_id (topic_row ''T2'' ''Algebra'' (Some ''T1'')) = Some ''T1'' \<and>
   find_topic \<lparr>topics = [topic_row ''T2'' ''Algebra'' (Some ''T1'')], skills = []\<rparr> (Some ''T1'') = None \<and>
   \<not> parents_reference_topics \<lparr>topics = [topic_row ''T2'' ''Algebra'' (Some ''T1'')], skills = []\<rparr> \<and>
   update_topic ''T2'' (topic_body (Str ''Linear Algebra'') Absent)
      \<lparr>topics = [topic_row ''T2'' ''Algebra'' (Some ''T1'')], skills = []\<rparr>
     = (\<lparr>topics = [topic_row ''T2'' ''Algebra'' (Some ''T1'')], skills = []\<rparr>,
        Inl (ValidationError ParentNotFound))"
  by (simp add: create_topic_def delete_topic_def update_topic_def empty_store_def add_topic_def
      remove_topic_def find_topic_def topic_has_skills_def parents_reference_topics_def
      strip_def is_space_def Let_def)


subsection \<open>Creating topics and skills\<close>

text \<open>
  Claim C4, as stated, fails: a request to create a topic whose \<^verbatim>\<open>parentTopicID\<close> is
  the empty string supplies a parent that no topic has as its identifier, and yet no
  validation error is answered and a topic is created, because the handler tests the
  parent with \<^verbatim>\<open>if parent_id:\<close>.
\<close>

theorem create_topic_empty_parent_counterexample:
  "create_topic ''T1'' (topic_body (Str ''Math'') (Str [])) empty_store
     = (\<lparr>topics = [topic_row ''T1'' ''Math'' (Some [])], skills = []\<rparr>,
        Inr (topic_row ''T1'' ''Math'' (Some []))) \<and>
   \<not> (is_validation_error (snd (create_topic ''T1'' (topic_body (Str ''Math'') (Str [])) empty_store))
       = (strip (or_else (get (tp_name (topic_body (Str ''Math'') (Str [])))) []) = [] \<or>
          (\<exists>v. tp_parentTopicID (topic_body (Str ''Math'') (Str [])) = Str v \<and>
               find_topic empty_store (Some v) = None)))"
  by (simp add: create_topic_def empty_store_def add_topic_def find_topic_def
      strip_def is_space_def Let_def)

text \<open>
  Claim C4, amended. For a request whose strings are free of the character of code 0:
  creating a topic whose \<^verbatim>\<open>parentTopicID\<close> is not the empty string answers with a
  validation error exactly when the name is missing or empty after trimming, or a
  \<^verbatim>\<open>parentTopicID\<close> is given and no topic has it as its identifier; creating a skill
  answers with a validation error exactly when the name is missing or empty after
  trimming, or the topic identifier (\<^verbatim>\<open>topicID\<close>, else \<^verbatim>\<open>topicId\<close>) is missing or empty,
  or no topic has it as its identifier. Otherwise the new row, with the generated
  identifier, is appended to its table and returned.
\<close>

theorem create_outcome:
  "(topic_payload_ok p \<and> tp_parentTopicID p \<noteq> Str [] \<longrightarrow>
      is_validation_error (snd (create_topic n p s)) =
        (strip (or_else (get (tp_name p)) []) = [] \<or>
         (\<exists>v. tp_parentTopicID p = Str v \<and> find_topic s (Some v) = None)) \<and>
      (\<not> is_validation_error (snd (create_topic n p s)) \<longrightarrow>
        create_topic n p s =
          (s\<lparr>topics := topics s @
              [\<lparr>topic_id = n, topic_name = strip (or_else (get (tp_name p)) []),
                topic_description = get (tp_description p),
                parent_topic_id = get (tp_parentTopicID p)\<rparr>]\<rparr>,
           Inr \<lparr>topic_id = n, topic_name = strip (or_else (get (tp_name p)) []),
                topic_description = get (tp_description p),
                parent_topic_id = get (tp_parentTopicID p)\<rparr>))) \<and>
   (skill_payload_ok u \<longrightarrow>
      is_validation_error (snd (create_skill m u s)) =
        (strip (or_else (get (sp_name u)) []) = [] \<or>
         \<not> truthy (py_or (get (sp_topicID u)) (get (sp_topicId u))) \<or>
         find_topic s (py_or (get (sp_topicID u)) (get (sp_topicId u))) = None) \<and>
      (\<not> is_validation_error (snd (create_skill m u s)) \<longrightarrow>
        (\<exists>k. py_or (get (sp_topicID u)) (get (sp_topicId u)) = Some k \<and>
          create_skill m u s =
            (s\<lparr>skills := skills s @
                [\<lparr>skill_id = m, skill_name = strip (or_else (get (sp_name u)) []),
                  skill_topic_id = k,
                  skill_difficulty = strip (or_else (get (sp_difficulty u)) ''beginner'')\<rparr>]\<rparr>,
             Inr \<lparr>skill_id = m, skill_name = strip (or_else (get (sp_name u)) []),
                  skill_topic_id = k,
                  skill_difficulty = strip (or_else (get (sp_difficulty u)) ''beginner'')\<rparr>))))"
proof -
  have t1: "tp_parentTopicID p \<noteq> Str [] \<longrightarrow>
      is_validation_error (snd (create_topic n p s)) =
        (strip (or_else (get (tp_name p)) []) = [] \<or>
         (\<exists>v. tp_parentTopicID p = Str v \<and> find_topic s (Some v) = None))"
    by (cases "tp_parentTopicID p") (auto simp: create_topic_def Let_def)
  have t2: "\<not> is_validation_error (snd (create_topic n p s)) \<longrightarrow>
      create_topic n p s =
        (s\<lparr>topics := topics s @
            [\<lparr>topic_id = n, topic_name = strip (or_else (get (tp_name p)) []),
              topic_description = get (tp_description p),
              parent_topic_id = get (tp_parentTopicID p)\<rparr>]\<rparr>,
         Inr \<lparr>topic_id = n, topic_name = strip (or_else (get (tp_name p)) []),
              topic_description = get (tp_description p),
              parent_topic_id = get (tp_parentTopicID p)\<rparr>)"
    by (auto simp: create_topic_def Let_def add_topic_def)
  have s1: "is_validation_error (snd (create_skill m u s)) =
      (strip (or_else (get (sp_name u)) []) = [] \<or>
       \<not> truthy (py_or (get (sp_topicID u)) (get (sp_topicId u))) \<or>
       find_topic s (py_or (get (sp_topicID u)) (get (sp_topicId u))) = None)"
    by (cases "py_or (get (sp_topicID u)) (get (sp_topicId u))")
       (auto simp: create_skill_def Let_def)
  have s2: "\<not> is_validation_error (snd (create_skill m u s)) \<longrightarrow>
      (\<exists>k. py_or (get (sp_topicID u)) (get (sp_topicId u)) = Some k \<and>
        create_skill m u s =
          (s\<lparr>skills := skills s @
              [\<lparr>skill_id = m, skill_name = strip (or_else (get (sp_name u)) []),
                skill_topic_id = k,
                skill_difficulty = strip (or_else (get (sp_difficulty u)) ''beginner'')\<rparr>]\<rparr>,
           Inr \<lparr>skill_id = m, skill_name = strip (or_else (get (sp_name u)) []),
                skill_topic_id = k,
                skill_difficulty = strip (or_else (get (sp_difficulty u)) ''beginner'')\<rparr>))"
    by (cases "py_or (get (sp_topicID u)) (get (sp_topicId u))")
       (auto simp: create_skill_def Let_def add_skill_def)
  from t1 t2 s1 s2 show ?thesis by blast
qed

theorem create_outcome_witness:
  "topic_payload_ok (topic_body (Str '' Algebra '') (Str ''T1'')) \<and>
   skill_payload_ok (skill_body (Str ''Addition'') (Str ''T1'') Absent) \<and>
   create_topic ''T2'' (topic_body (Str '' Algebra '') (Str ''T1''))
      \<lparr>topics = [topic_row ''T1'' ''Math'' None], skills = []\<rparr>
     = (\<lparr>topics = [topic_row ''T1'' ''Math'' None, topic_row ''T2'' ''Algebra'' (Some ''T1'')],
         skills = []\<rparr>,
        Inr (topic_row ''T2'' ''Algebra'' (Some ''T1''))) \<and>
   create_skill ''S1'' (skill_body (Str ''Addition'') (Str ''T1'') Absent)
      \<lparr>topics = [topic_row ''T1'' ''Math'' None], skills = []\<rparr>
     = (\<lparr>topics = [topic_row ''T1'' ''Math'' None],
         skills = [skill_row ''S1'' ''Addition'' ''T1'' ''beginner'']\<rparr>,
        Inr (skill_row ''S1'' ''Addition'' ''T1'' ''beginner'')) \<and>
   is_validation_error (snd (create_topic ''T3'' (topic_body (Str ''Sets'') (Str ''T9''))
      \<lparr>topics = [topic_row ''T1'' ''Math'' None], skills = []\<rparr>)) \<and>
   is_validation_error (snd (create_skill ''S2'' (skill_body (Str ''Addition'') Absent Absent)
      \<lparr>topics = [topic_row ''T1'' ''Math'' None], skills = []\<rparr>))"
proof -
  let ?s = "\<lparr>topics = [topic_row ''T1'' ''Math'' None], skills = []\<rparr>"
  have e: "strip '' Algebra '' = ''Algebra''" "strip ''Sets'' = ''Sets''"
    "strip ''Addition'' = ''Addition''" "strip ''beginner'' = ''beginner''"
    by (simp_all add: strip_def is_space_def)
  have f: "find_topic ?s (Some ''T1'') \<noteq> None" "find_topic ?s (Some ''T9'') = None"
    by (simp_all add: find_topic_def)
  have k: "topic_payload_ok (topic_body (Str '' Algebra '') (Str ''T1''))"
    "topic_payload_ok (topic_body (Str ''Sets'') (Str ''T9''))"
    "skill_payload_ok (skill_body (Str ''Addition'') (Str ''T1'') Absent)"
    "skill_payload_ok (skill_body (Str ''Addition'') Absent Absent)"
    by (simp_all add: topic_payload_ok_def skill_payload_ok_def text_ok_def)
  from e f k
    create_outcome [of "topic_body (Str '' Algebra '') (Str ''T1'')" "''T2''" ?s
      "skill_body (Str ''Addition'') (Str ''T1'') Absent" "''S1''"]
    create_outcome [of "topic_body (Str ''Sets'') (Str ''T9'')" "''T3''" ?s
      "skill_body (Str ''Addition'') Absent Absent" "''S2''"]
  show ?thesis by (simp add: py_or_def)
qed

subsection \<open>Updating a topic\<close>

lemma serve_names_trimmed: "names_trimmed s \<Longrightarrow> names_trimmed (serve r s)"
proof (cases r)
  case (CreateTopic n p)
  assume "names_trimmed s"
  then show ?thesis
    by (auto simp: CreateTopic create_topic_def Let_def names_trimmed_def add_topic_def strip_idem)
next
  case (UpdateTopic i p)
  assume "names_trimmed s"
  then show ?thesis
    by (auto simp: UpdateTopic update_topic_def Let_def names_trimmed_def put_topic_def strip_idem
        list_all_iff split: option.splits)
next
  case (DeleteTopic i)
  assume "names_trimmed s"
  then show ?thesis
    by (auto simp: DeleteTopic delete_topic_def names_trimmed_def remove_topic_def list_all_iff
        split: option.splits)
next
  case (CreateSkill n u)
  assume "names_trimmed s"
  then show ?thesis
    by (auto simp: CreateSkill create_skill_def Let_def names_trimmed_def add_skill_def
        split: option.splits)
next
  case (UpdateSkill i u)
  assume "names_trimmed s"
  then show ?thesis
    by (auto simp: UpdateSkill update_skill_def Let_def names_trimmed_def put_skill_def
        split: option.splits)
next
  case (DeleteSkill i)
  assume "names_trimmed s"
  then show ?thesis
    by (auto simp: DeleteSkill delete_skill_def names_trimmed_def remove_skill_def
        split: option.splits)
qed

lemma run_names_trimmed:
  "names_trimmed s \<Longrightarrow> run rs s = Some s' \<Longrightarrow> names_trimmed s'"
proof (induction rs arbitrary: s)
  case Nil
  then show ?case by simp
next
  case (Cons r rs)
  from Cons.prems(2) have "run rs (serve r s) = Some s'"
    by (simp split: if_splits)
  with Cons.IH [OF serve_names_trimmed [OF Cons.prems(1)]] show ?case .
qed

lemma reachable_name_trimmed:
  "run rs empty_store = Some s \<Longrightarrow> find_topic s (Some i) = Some t \<Longrightarrow> strip (topic_name t) = topic_name t"
proof -
  assume r: "run rs empty_store = Some s" and f: "find_topic s (Some i) = Some t"
  have "names_trimmed empty_store" by (simp add: names_trimmed_def empty_store_def)
  with r have "names_trimmed s" using run_names_trimmed by blast
  moreover from f have "t \<in> set (topics s)" using find_topic_SomeD by blast
  ultimately show ?thesis by (simp add: names_trimmed_def list_all_iff)
qed

text \<open>
  Claim C8, as stated, fails: when the name given in an update is the empty string, the
  trimmed given value (the empty string) is not applied; the topic keeps its name.
\<close>

theorem update_topic_counterexample:
  "find_topic \<lparr>topics = [topic_row ''T1'' ''Math'' None], skills = []\<rparr> (Some ''T1'')
     = Some (topic_row ''T1'' ''Math'' None) \<and>
   tp_name (topic_body (Str []) Absent) = Str [] \<and> strip [] = [] \<and>
   update_topic ''T1'' (topic_body (Str []) Absent)
       \<lparr>topics = [topic_row ''T1'' ''Math'' None], skills = []\<rparr>
     = (\<lparr>topics = [topic_row ''T1'' ''Math'' None], skills = []\<rparr>,
        Inr (topic_row ''T1'' ''Math'' None))"
  by (simp add: update_topic_def find_topic_def put_topic_def strip_def is_space_def Let_def)

text \<open>
  Claim C8, amended. When an update of an existing topic, by a payload whose strings are
  free of the character of code 0, succeeds: a name given as a non-empty string is
  applied after trimming, also when trimming leaves it empty; when
  the name is absent, \<^verbatim>\<open>null\<close> or the empty string, the new name is the trimmed stored
  name, which in every store reached from the empty store is the stored name itself;
  a description or parent absent from the payload keeps its stored value; the
  identifier is kept, and the updated row is the one stored under it.
\<close>

theorem update_topic_fields:
  "topic_payload_ok p \<and> find_topic s (Some i) = Some t \<and>
   update_topic i p s = (s', Inr t') \<longrightarrow>
     topic_id t' = topic_id t \<and>
     (\<forall>v. tp_name p = Str v \<and> v \<noteq> [] \<longrightarrow> topic_name t' = strip v) \<and>
     (tp_name p = Absent \<or> tp_name p = Null \<or> tp_name p = Str [] \<longrightarrow>
        topic_name t' = strip (topic_name t) \<and>
        (\<forall>rs. run rs empty_store = Some s \<longrightarrow> topic_name t' = topic_name t)) \<and>
     (tp_description p = Absent \<longrightarrow> topic_description t' = topic_description t) \<and>
     (tp_parentTopicID p = Absent \<longrightarrow> parent_topic_id t' = parent_topic_id t) \<and>
     s' = put_topic t' s \<and> find_topic s' (Some i) = Some t'"
proof
  assume a: "topic_payload_ok p \<and> find_topic s (Some i) = Some t \<and>
    update_topic i p s = (s', Inr t')"
  then have f: "find_topic s (Some i) = Some t" and u: "update_topic i p s = (s', Inr t')"
    by simp_all
  from f have i: "topic_id t = i" using find_topic_SomeD by fastforce
  from f u have t': "t' = t\<lparr>topic_name := strip (or_else (get (tp_name p)) (topic_name t)),
        topic_description := get_default (tp_description p) (topic_description t),
        parent_topic_id := get_default (tp_parentTopicID p) (parent_topic_id t)\<rparr>"
    and s': "s' = put_topic t' s"
    by (auto simp: update_topic_def Let_def split: if_splits)
  from t' have id: "topic_id t' = topic_id t" by simp
  have "find_topic s (Some (topic_id t')) \<noteq> None" using f i id by simp
  then have stored: "find_topic s' (Some i) = Some t'"
    using find_put_topic [of s t'] s' i id by simp
  have trimmed: "\<forall>rs. run rs empty_store = Some s \<longrightarrow> strip (topic_name t) = topic_name t"
    using reachable_name_trimmed f by blast
  from t' have n1: "\<forall>v. tp_name p = Str v \<and> v \<noteq> [] \<longrightarrow> topic_name t' = strip v"
    by simp
  from t' have n2: "tp_name p = Absent \<or> tp_name p = Null \<or> tp_name p = Str [] \<longrightarrow>
        topic_name t' = strip (topic_name t)"
    by auto
  from t' have d: "tp_description p = Absent \<longrightarrow> topic_description t' = topic_description t"
    and q: "tp_parentTopicID p = Absent \<longrightarrow> parent_topic_id t' = parent_topic_id t"
    by simp_all
  from n2 trimmed have n3: "tp_name p = Absent \<or> tp_name p = Null \<or> tp_name p = Str [] \<longrightarrow>
        topic_name t' = strip (topic_name t) \<and>
        (\<forall>rs. run rs empty_store = Some s \<longrightarrow> topic_name t' = topic_name t)"
    by auto
  from id n1 n3 d q s' stored
  show "topic_id t' = topic_id t \<and>
     (\<forall>v. tp_name p = Str v \<and> v \<noteq> [] \<longrightarrow> topic_name t' = strip v) \<and>
     (tp_name p = Absent \<or> tp_name p = Null \<or> tp_name p = Str [] \<longrightarrow>
        topic_name t' = strip (topic_name t) \<and>
        (\<forall>rs. run rs empty_store = Some s \<longrightarrow> topic_name t' = topic_name t)) \<and>
     (tp_description p = Absent \<longrightarrow> topic_description t' = topic_description t) \<and>
     (tp_parentTopicID p = Absent \<longrightarrow> parent_topic_id t' = parent_topic_id t) \<and>
     s' = put_topic t' s \<and> find_topic s' (Some i) = Some t'"
    by (intro conjI)
qed

theorem update_topic_fields_witness:
  "topic_payload_ok (topic_body (Str ''  '') Absent) \<and>
   topic_payload_ok (topic_body Absent Absent) \<and>
   run [CreateTopic ''T1'' (topic_body (Str ''Math'') Absent)] empty_store
     = Some \<lparr>topics = [topic_row ''T1'' ''Math'' None], skills = []\<rparr> \<and>
   update_topic ''T1'' (topic_body (Str ''  '') Absent)
       \<lparr>topics = [topic_row ''T1'' ''Math'' None], skills = []\<rparr>
     = (\<lparr>topics = [topic_row ''T1'' [] None], skills = []\<rparr>, Inr (topic_row ''T1'' [] None)) \<and>
   topic_name (topic_row ''T1'' [] None) = strip ''  '' \<and>
   update_topic ''T1'' (topic_body Absent Absent)
       \<lparr>topics = [topic_row ''T1'' ''Math'' None], skills = []\<rparr>
     = (\<lparr>topics = [topic_row ''T1'' ''Math'' None], skills = []\<rparr>,
        Inr (topic_row ''T1'' ''Math'' None))"
proof -
  let ?s = "\<lparr>topics = [topic_row ''T1'' ''Math'' None], skills = []\<rparr>"
  have r: "run [CreateTopic ''T1'' (topic_body (Str ''Math'') Absent)] empty_store = Some ?s"
    by (simp add: create_topic_def empty_store_def add_topic_def strip_def is_space_def Let_def)
  have f: "find_topic ?s (Some ''T1'') = Some (topic_row ''T1'' ''Math'' None)"
    by (simp add: find_topic_def)
  have u1: "update_topic ''T1'' (topic_body (Str ''  '') Absent) ?s
     = (\<lparr>topics = [topic_row ''T1'' [] None], skills = []\<rparr>, Inr (topic_row ''T1'' [] None))"
    by (simp add: update_topic_def find_topic_def put_topic_def strip_def is_space_def Let_def)
  have u2: "update_topic ''T1'' (topic_body Absent Absent) ?s
     = (?s, Inr (topic_row ''T1'' ''Math'' None))"
    by (simp add: update_topic_def find_topic_def put_topic_def strip_def is_space_def Let_def)
  have k: "topic_payload_ok (topic_body (Str ''  '') Absent)"
    "topic_payload_ok (topic_body Absent Absent)"
    by (simp_all add: topic_payload_ok_def text_ok_def)
  from r f u1 u2 k
    update_topic_fields [of "topic_body (Str ''  '') Absent" ?s "''T1''"
      "topic_row ''T1'' ''Math'' None"
      "\<lparr>topics = [topic_row ''T1'' [] None], skills = []\<rparr>" "topic_row ''T1'' [] None"]
    update_topic_fields [of "topic_body Absent Absent" ?s "''T1''"
      "topic_row ''T1'' ''Math'' None" ?s "topic_row ''T1'' ''Math'' None"]
  show ?thesis by simp
qed

subsection \<open>The difficulty of a new skill\<close>

text \<open>
  Where the default does apply, and where a given difficulty is kept: for a payload
  whose strings are free of the character of code 0, a created skill has the trimmed
  given difficulty when that is not empty, and \<open>beginner\<close> when the difficulty is
  absent, \<^verbatim>\<open>null\<close> or the empty string.
\<close>

lemma create_skill_difficulty_given:
  "skill_payload_ok u \<and> create_skill n u s = (s', Inr x) \<longrightarrow>
     (\<forall>v. sp_difficulty u = Str v \<and> strip v \<noteq> [] \<longrightarrow> skill_difficulty x = strip v) \<and>
     (sp_difficulty u = Absent \<or> sp_difficulty u = Null \<or> sp_difficulty u = Str [] \<longrightarrow>
        skill_difficulty x = ''beginner'') \<and>
     skills s' = skills s @ [x]"
proof
  assume c: "skill_payload_ok u \<and> create_skill n u s = (s', Inr x)"
  then have d: "skill_difficulty x = strip (or_else (get (sp_difficulty u)) ''beginner'')"
    and s': "s' = add_skill x s"
    by (auto simp: create_skill_def Let_def split: option.splits if_splits)
  from d have d1: "\<forall>v. sp_difficulty u = Str v \<and> strip v \<noteq> [] \<longrightarrow> skill_difficulty x = strip v"
    by (auto simp: strip_def)
  from d have d2: "sp_difficulty u = Absent \<or> sp_difficulty u = Null \<or> sp_difficulty u = Str [] \<longrightarrow>
        skill_difficulty x = ''beginner''"
    by (auto simp: strip_beginner)
  from s' have a: "skills s' = skills s @ [x]" by (simp add: add_skill_def)
  from d1 d2 a
  show "(\<forall>v. sp_difficulty u = Str v \<and> strip v \<noteq> [] \<longrightarrow> skill_difficulty x = strip v) \<and>
     (sp_difficulty u = Absent \<or> sp_difficulty u = Null \<or> sp_difficulty u = Str [] \<longrightarrow>
        skill_difficulty x = ''beginner'') \<and>
     skills s' = skills s @ [x]"
    by (intro conjI)
qed

text \<open>
  Claim C9. The claim is that a skill created with a valid name and topic has the
  trimmed given difficulty, and \<open>beginner\<close> whenever the difficulty is absent or empty
  after trimming. The code misses the default for a difficulty of whitespace only: it
  chooses between the given value and \<open>beginner\<close> first and trims afterwards
  (\<^verbatim>\<open>(payload.get("difficulty") or "beginner").strip()\<close>), so a difficulty of two spaces,
  empty after trimming, is stored as the empty string and not as \<open>beginner\<close>.
\<close>

theorem create_skill_blank_difficulty:
  "find_topic \<lparr>topics = [topic_row ''T1'' ''Math'' None], skills = []\<rparr> (Some ''T1'') \<noteq> None \<and>
   strip ''Addition'' \<noteq> [] \<and> strip ''  '' = [] \<and>
   create_skill ''S1'' (skill_body (Str ''Addition'') (Str ''T1'') (Str ''  ''))
      \<lparr>topics = [topic_row ''T1'' ''Math'' None], skills = []\<rparr>
     = (\<lparr>topics = [topic_row ''T1'' ''Math'' None],
         skills = [skill_row ''S1'' ''Addition'' ''T1'' []]\<rparr>,
        Inr (skill_row ''S1'' ''Addition'' ''T1'' [])) \<and>
   skill_difficulty (skill_row ''S1'' ''Addition'' ''T1'' []) \<noteq> ''beginner''"
  by (simp add: create_skill_def find_topic_def add_skill_def py_or_def strip_def is_space_def
      Let_def)

subsection \<open>Searching by name\<close>

lemma starts_with_iff: "starts_with v q = (\<exists>w. v = q @ w)"
  by (induction v q rule: starts_with.induct) auto

lemma contains_iff: "contains v q = (\<exists>u w. v = u @ q @ w)"
proof (induction v)
  case Nil
  then show ?case by auto
next
  case (Cons c cs)
  show ?case
  proof
    assume "contains (c # cs) q"
    then consider "starts_with (c # cs) q" | "contains cs q" by auto
    then show "\<exists>u w. c # cs = u @ q @ w"
    proof cases
      case 1
      then obtain w where "c # cs = q @ w" by (auto simp: starts_with_iff)
      then have "c # cs = [] @ q @ w" by simp
      then show ?thesis by blast
    next
      case 2
      with Cons.IH obtain u w where "cs = u @ q @ w" by auto
      then have "c # cs = (c # u) @ q @ w" by simp
      then show ?thesis by blast
    qed
  next
    assume "\<exists>u w. c # cs = u @ q @ w"
    then obtain u w where uw: "c # cs = u @ q @ w" by auto
    show "contains (c # cs) q"
    proof (cases u)
      case Nil
      with uw have "starts_with (c # cs) q" unfolding starts_with_iff by auto
      then show ?thesis by simp
    next
      case (Cons a u')
      with uw have "cs = u' @ q @ w" by simp
      with Cons.IH show ?thesis by auto
    qed
  qed
qed

lemma like_percent_only: "like [CHR ''%''] v"
  by (induction v) auto

lemma like_plain_cons:
  "\<not> wildcard p \<Longrightarrow> like (p # ps) v = (\<exists>cs. v = p # cs \<and> like ps cs)"
  by (cases v) (auto simp: wildcard_def)

lemma like_plain:
  "\<forall>c \<in> set q. \<not> wildcard c \<Longrightarrow> like (q @ ps) v = (\<exists>w. v = q @ w \<and> like ps w)"
proof (induction q arbitrary: v)
  case Nil
  then show ?case by simp
next
  case (Cons p q)
  then show ?case by (auto simp: like_plain_cons simp del: like.simps)
qed

lemma like_percent: "like (CHR ''%'' # ps) v = (\<exists>u w. v = u @ w \<and> like ps w)"
proof (induction v)
  case Nil
  then show ?case by simp
next
  case (Cons c cs)
  have "like (CHR ''%'' # ps) (c # cs) = (like ps (c # cs) \<or> like (CHR ''%'' # ps) cs)"
    by simp
  also have "\<dots> = (like ps (c # cs) \<or> (\<exists>u w. cs = u @ w \<and> like ps w))"
    using Cons.IH by simp
  also have "\<dots> = (\<exists>u w. c # cs = u @ w \<and> like ps w)"
  proof
    assume "like ps (c # cs) \<or> (\<exists>u w. cs = u @ w \<and> like ps w)"
    then show "\<exists>u w. c # cs = u @ w \<and> like ps w"
    proof
      assume "like ps (c # cs)"
      then have "c # cs = [] @ (c # cs) \<and> like ps (c # cs)" by simp
      then show ?thesis by blast
    next
      assume "\<exists>u w. cs = u @ w \<and> like ps w"
      then obtain u w where "cs = u @ w" "like ps w" by auto
      then have "c # cs = (c # u) @ w \<and> like ps w" by simp
      then show ?thesis by blast
    qed
  next
    assume "\<exists>u w. c # cs = u @ w \<and> like ps w"
    then obtain u w where uw: "c # cs = u @ w" "like ps w" by auto
    show "like ps (c # cs) \<or> (\<exists>u w. cs = u @ w \<and> like ps w)"
    proof (cases u)
      case Nil
      with uw show ?thesis by simp
    next
      case (Cons a u')
      with uw have "cs = u' @ w" by simp
      with uw(2) show ?thesis by blast
    qed
  qed
  finally show ?case .
qed

lemma like_name_pattern:
  assumes "\<forall>c \<in> set q. \<not> wildcard c"
  shows "like (name_pattern q) v = contains v q"
proof -
  have "like (name_pattern q) v = (\<exists>u w. v = u @ w \<and> like (q @ [CHR ''%'']) w)"
    by (simp add: name_pattern_def like_percent del: like.simps)
  also have "\<dots> = (\<exists>u w. v = u @ w \<and> (\<exists>w'. w = q @ w'))"
    using like_plain [OF assms, of "[CHR ''%'']"] by (simp add: like_percent_only del: like.simps)
  also have "\<dots> = (\<exists>u w'. v = u @ q @ w')" by blast
  finally show ?thesis by (simp add: contains_iff)
qed

lemma wildcard_code:
  "wildcard c = (of_char c = (37::nat) \<or> of_char c = (95::nat) \<or> of_char c = (92::nat))"
proof -
  have "(c = CHR ''%'') = (of_char c = (of_char (CHR ''%'') :: nat))"
       "(c = CHR ''_'') = (of_char c = (of_char (CHR ''_'') :: nat))"
       "(c = CHR 0x5C) = (of_char c = (of_char (CHR 0x5C) :: nat))"
    by (simp_all only: of_char_eq_iff)
  then show ?thesis by (simp add: wildcard_def)
qed

lemma wildcard_lower: "wildcard (lower c) = wildcard c"
proof (cases "65 \<le> (of_char c :: nat) \<and> (of_char c :: nat) \<le> 90")
  case True
  then have "(of_char (lower c) :: nat) = of_char c + 32"
    by (simp add: lower_def Let_def)
  with True show ?thesis by (simp add: wildcard_code)
next
  case False
  then show ?thesis by (auto simp add: lower_def Let_def)
qed

lemma ilike_name_pattern:
  assumes "\<forall>c \<in> set q. \<not> wildcard c"
  shows "ilike v (name_pattern q) = contains_ci v q"
proof -
  have "map lower (name_pattern q) = name_pattern (map lower q)"
    by (simp add: name_pattern_def lower_def)
  moreover have "\<forall>c \<in> set (map lower q). \<not> wildcard c"
    using assms by (simp add: wildcard_lower)
  ultimately show ?thesis
    by (simp add: ilike_def contains_ci_def like_name_pattern)
qed

lemma contains_Nil: "contains v []"
  by (cases v) simp_all

lemma wildcard_free_iff: "wildcard_free q = (\<forall>c \<in> set q. \<not> wildcard c)"
  by (simp add: wildcard_free_def filter_empty_conv)

lemma topic_query_plain:
  assumes "wildcard_free q"
  shows "topic_query (Some q) k s =
     filter (\<lambda>t. contains_ci (topic_name t) q \<and> (truthy k \<longrightarrow> parent_topic_id t = k)) (topics s)"
proof (cases "q = []")
  case True
  then show ?thesis
    by (simp add: topic_query_def Let_def contains_ci_def contains_Nil)
next
  case False
  with assms show ?thesis
    by (simp add: topic_query_def Let_def ilike_name_pattern wildcard_free_iff)
qed

lemma skill_query_plain:
  assumes "wildcard_free q"
  shows "skill_query (Some q) k s =
     filter (\<lambda>x. contains_ci (skill_name x) q \<and> (truthy k \<longrightarrow> Some (skill_topic_id x) = k)) (skills s)"
proof (cases "q = []")
  case True
  then show ?thesis
    by (simp add: skill_query_def Let_def contains_ci_def contains_Nil)
next
  case False
  with assms show ?thesis
    by (simp add: skill_query_def Let_def ilike_name_pattern wildcard_free_iff)
qed

text \<open>
  Claim C5, as stated, fails: the argument \<^verbatim>\<open>q\<close> is put into the \<^verbatim>\<open>ILIKE\<close> pattern as it
  is, so an underscore in it stands for any one character. Listing with \<^verbatim>\<open>q\<close> an
  underscore returns the topic named Math, whose name does not contain an underscore.
\<close>

theorem list_wildcard_counterexample:
  "list_topics (Some ''_'') None None None \<lparr>topics = [topic_row ''T1'' ''Math'' None], skills = []\<rparr>
     = Inr \<lparr>data = [topic_row ''T1'' ''Math'' None], total = 1, meta_limit = 50, meta_offset = 0\<rparr> \<and>
   \<not> contains_ci ''Math'' ''_''"
  by code_simp

text \<open>
  Claim C5, amended. For a name substring \<open>q\<close> without a percent sign, an underscore or
  a backslash, a listing that answers returns a total equal to the number of all rows
  whose name contains \<open>q\<close> without regard to letter case (and that pass the parent or
  topic filter, when one is given), and its items are the page window (the first
  \<open>offset\<close> skipped, at most \<open>limit\<close> taken) of these rows arranged by name ascending,
  in one of the orders that equal names allow. For every query, two listings that
  differ only in limit and offset and both answer have the same total.
\<close>

theorem list_search_and_total:
  "(wildcard_free q \<and> list_topics (Some q) k a b s = Inr r \<longrightarrow>
      total r = length (filter (\<lambda>t. contains_ci (topic_name t) q \<and>
                                     (truthy k \<longrightarrow> parent_topic_id t = k)) (topics s)) \<and>
      (\<exists>rows. mset rows = mset (filter (\<lambda>t. contains_ci (topic_name t) q \<and>
                                     (truthy k \<longrightarrow> parent_topic_id t = k)) (topics s)) \<and>
              sorted (map topic_name rows) \<and>
              data r = take (nat (clamp_limit a)) (drop (nat (clamp_offset b)) rows))) \<and>
   (wildcard_free q \<and> list_skills (Some q) k a b s = Inr u \<longrightarrow>
      total u = length (filter (\<lambda>x. contains_ci (skill_name x) q \<and>
                                     (truthy k \<longrightarrow> Some (skill_topic_id x) = k)) (skills s)) \<and>
      (\<exists>rows. mset rows = mset (filter (\<lambda>x. contains_ci (skill_name x) q \<and>
                                     (truthy k \<longrightarrow> Some (skill_topic_id x) = k)) (skills s)) \<and>
              sorted (map skill_name rows) \<and>
              data u = take (nat (clamp_limit a)) (drop (nat (clamp_offset b)) rows))) \<and>
   (list_topics q' k a b s = Inr r \<and> list_topics q' k a' b' s = Inr r' \<longrightarrow> total r = total r') \<and>
   (list_skills q' k a b s = Inr u \<and> list_skills q' k a' b' s = Inr u' \<longrightarrow> total u = total u')"
proof -
  have w: "\<exists>rows. mset rows = mset xs \<and> sorted (map f rows) \<and>
             take n (drop m (sort_key f xs)) = take n (drop m rows)"
    for f :: "'a \<Rightarrow> string" and xs n m
  proof -
    have "mset (sort_key f xs) = mset xs \<and> sorted (map f (sort_key f xs))" by simp
    then show ?thesis by blast
  qed
  have 1: "wildcard_free q \<and> list_topics (Some q) k a b s = Inr r \<longrightarrow>
      total r = length (filter (\<lambda>t. contains_ci (topic_name t) q \<and>
                                     (truthy k \<longrightarrow> parent_topic_id t = k)) (topics s)) \<and>
      (\<exists>rows. mset rows = mset (filter (\<lambda>t. contains_ci (topic_name t) q \<and>
                                     (truthy k \<longrightarrow> parent_topic_id t = k)) (topics s)) \<and>
              sorted (map topic_name rows) \<and>
              data r = take (nat (clamp_limit a)) (drop (nat (clamp_offset b)) rows))"
  proof
    assume h: "wildcard_free q \<and> list_topics (Some q) k a b s = Inr r"
    then have q: "topic_query (Some q) k s =
        filter (\<lambda>t. contains_ci (topic_name t) q \<and> (truthy k \<longrightarrow> parent_topic_id t = k)) (topics s)"
      using topic_query_plain by blast
    from h have r: "r = \<lparr>data = take (nat (clamp_limit a))
                         (drop (nat (clamp_offset b)) (sort_key topic_name (topic_query (Some q) k s))),
                total = length (topic_query (Some q) k s),
                meta_limit = clamp_limit a, meta_offset = clamp_offset b\<rparr>"
      by (simp add: list_topics_eq [of "Some q"] split: if_splits)
    from r have t: "total r = length (topic_query (Some q) k s)"
      and d: "data r = take (nat (clamp_limit a))
                         (drop (nat (clamp_offset b)) (sort_key topic_name (topic_query (Some q) k s)))"
      by simp_all
    from t d w [of "topic_query (Some q) k s" topic_name "nat (clamp_limit a)" "nat (clamp_offset b)"]
    show "total r = length (filter (\<lambda>t. contains_ci (topic_name t) q \<and>
                                     (truthy k \<longrightarrow> parent_topic_id t = k)) (topics s)) \<and>
      (\<exists>rows. mset rows = mset (filter (\<lambda>t. contains_ci (topic_name t) q \<and>
                                     (truthy k \<longrightarrow> parent_topic_id t = k)) (topics s)) \<and>
              sorted (map topic_name rows) \<and>
              data r = take (nat (clamp_limit a)) (drop (nat (clamp_offset b)) rows))"
      unfolding q by simp
  qed
  have 2: "wildcard_free q \<and> list_skills (Some q) k a b s = Inr u \<longrightarrow>
      total u = length (filter (\<lambda>x. contains_ci (skill_name x) q \<and>
                                     (truthy k \<longrightarrow> Some (skill_topic_id x) = k)) (skills s)) \<and>
      (\<exists>rows. mset rows = mset (filter (\<lambda>x. contains_ci (skill_name x) q \<and>
                                     (truthy k \<longrightarrow> Some (skill_topic_id x) = k)) (skills s)) \<and>
              sorted (map skill_name rows) \<and>
              data u = take (nat (clamp_limit a)) (drop (nat (clamp_offset b)) rows))"
  proof
    assume h: "wildcard_free q \<and> list_skills (Some q) k a b s = Inr u"
    then have q: "skill_query (Some q) k s =
        filter (\<lambda>x. contains_ci (skill_name x) q \<and> (truthy k \<longrightarrow> Some (skill_topic_id x) = k)) (skills s)"
      using skill_query_plain by blast
    from h have r: "u = \<lparr>data = take (nat (clamp_limit a))
                         (drop (nat (clamp_offset b)) (sort_key skill_name (skill_query (Some q) k s))),
                total = length (skill_query (Some q) k s),
                meta_limit = clamp_limit a, meta_offset = clamp_offset b\<rparr>"
      by (simp add: list_skills_eq [of "Some q"] split: if_splits)
    from r have t: "total u = length (skill_query (Some q) k s)"
      and d: "data u = take (nat (clamp_limit a))
                         (drop (nat (clamp_offset b)) (sort_key skill_name (skill_query (Some q) k s)))"
      by simp_all
    from t d w [of "skill_query (Some q) k s" skill_name "nat (clamp_limit a)" "nat (clamp_offset b)"]
    show "total u = length (filter (\<lambda>x. contains_ci (skill_name x) q \<and>
                                     (truthy k \<longrightarrow> Some (skill_topic_id x) = k)) (skills s)) \<and>
      (\<exists>rows. mset rows = mset (filter (\<lambda>x. contains_ci (skill_name x) q \<and>
                                     (truthy k \<longrightarrow> Some (skill_topic_id x) = k)) (skills s)) \<and>
              sorted (map skill_name rows) \<and>
              data u = take (nat (clamp_limit a)) (drop (nat (clamp_offset b)) rows))"
      unfolding q by simp
  qed
  have 3: "list_topics q' k a b s = Inr r \<and> list_topics q' k a' b' s = Inr r' \<longrightarrow> total r = total r'"
    by (auto simp: list_topics_eq split: if_splits)
  have 4: "list_skills q' k a b s = Inr u \<and> list_skills q' k a' b' s = Inr u' \<longrightarrow> total u = total u'"
    by (auto simp: list_skills_eq split: if_splits)
  from 1 2 3 4 show ?thesis by (intro conjI)
qed

theorem list_search_and_total_witness:
  "wildcard_free ''aT'' \<and>
   list_topics (Some ''aT'') None None None
      \<lparr>topics = [topic_row ''T1'' ''Math'' None, topic_row ''T2'' ''Art'' None,
                 topic_row ''T3'' ''Law'' None], skills = []\<rparr>
     = Inr \<lparr>data = [topic_row ''T1'' ''Math'' None], total = 1, meta_limit = 50, meta_offset = 0\<rparr> \<and>
   length (filter (\<lambda>t. contains_ci (topic_name t) ''aT'')
      [topic_row ''T1'' ''Math'' None, topic_row ''T2'' ''Art'' None,
       topic_row ''T3'' ''Law'' None]) = 1 \<and>
   list_skills (Some ''aT'') None None None
      \<lparr>topics = [topic_row ''T1'' ''Math'' None],
        skills = [skill_row ''S1'' ''Ratios'' ''T1'' ''beginner'',
                  skill_row ''S2'' ''Sums'' ''T1'' ''beginner'']\<rparr>
     = Inr \<lparr>data = [skill_row ''S1'' ''Ratios'' ''T1'' ''beginner''], total = 1,
            meta_limit = 50, meta_offset = 0\<rparr> \<and>
   length (filter (\<lambda>x. contains_ci (skill_name x) ''aT'')
      [skill_row ''S1'' ''Ratios'' ''T1'' ''beginner'',
       skill_row ''S2'' ''Sums'' ''T1'' ''beginner'']) = 1 \<and>
   list_topics (Some ''A'') None (Some 1) (Some 1)
      \<lparr>topics = [topic_row ''T1'' ''Math'' None, topic_row ''T2'' ''Art'' None,
                 topic_row ''T3'' ''Law'' None], skills = []\<rparr>
     = Inr \<lparr>data = [topic_row ''T3'' ''Law'' None], total = 3, meta_limit = 1, meta_offset = 1\<rparr> \<and>
   list_topics (Some ''A'') None None None
      \<lparr>topics = [topic_row ''T1'' ''Math'' None, topic_row ''T2'' ''Art'' None,
                 topic_row ''T3'' ''Law'' None], skills = []\<rparr>
     = Inr \<lparr>data = [topic_row ''T2'' ''Art'' None, topic_row ''T3'' ''Law'' None,
                    topic_row ''T1'' ''Math'' None],
            total = 3, meta_limit = 50, meta_offset = 0\<rparr>"
proof -
  let ?s = "\<lparr>topics = [topic_row ''T1'' ''Math'' None, topic_row ''T2'' ''Art'' None,
                 topic_row ''T3'' ''Law'' None], skills = []\<rparr>"
  let ?s2 = "\<lparr>topics = [topic_row ''T1'' ''Math'' None],
        skills = [skill_row ''S1'' ''Ratios'' ''T1'' ''beginner'',
                  skill_row ''S2'' ''Sums'' ''T1'' ''beginner'']\<rparr>"
  let ?r1 = "\<lparr>data = [topic_row ''T1'' ''Math'' None], total = 1, meta_limit = 50,
      meta_offset = 0\<rparr>"
  let ?u1 = "\<lparr>data = [skill_row ''S1'' ''Ratios'' ''T1'' ''beginner''], total = 1,
      meta_limit = 50, meta_offset = 0\<rparr>"
  let ?r2 = "\<lparr>data = [topic_row ''T3'' ''Law'' None], total = 3, meta_limit = 1,
      meta_offset = 1\<rparr>"
  let ?r3 = "\<lparr>data = [topic_row ''T2'' ''Art'' None, topic_row ''T3'' ''Law'' None,
                    topic_row ''T1'' ''Math'' None],
            total = 3, meta_limit = 50, meta_offset = 0\<rparr>"
  have w: "wildcard_free ''aT''"
    by (simp add: wildcard_free_def wildcard_def)
  have a: "list_topics (Some ''aT'') None None None ?s = Inr ?r1"
    by code_simp
  have b: "list_skills (Some ''aT'') None None None ?s2 = Inr ?u1"
    by code_simp
  have c: "list_topics (Some ''A'') None (Some 1) (Some 1) ?s = Inr ?r2"
    by code_simp
  have d: "list_topics (Some ''A'') None None None ?s = Inr ?r3"
    by code_simp
  have "total ?r1 = length (filter (\<lambda>t. contains_ci (topic_name t) ''aT'' \<and>
          (truthy None \<longrightarrow> parent_topic_id t = None)) (topics ?s))"
    by (rule list_search_and_total [where q = "''aT''" and k = None and a = None and b = None
          and s = ?s and r = ?r1, THEN conjunct1, THEN mp, THEN conjunct1])
       (rule conjI [OF w a])
  then have e1: "length (filter (\<lambda>t. contains_ci (topic_name t) ''aT'')
      [topic_row ''T1'' ''Math'' None, topic_row ''T2'' ''Art'' None,
       topic_row ''T3'' ''Law'' None]) = 1"
    by simp
  have "total ?u1 = length (filter (\<lambda>x. contains_ci (skill_name x) ''aT'' \<and>
          (truthy None \<longrightarrow> Some (skill_topic_id x) = None)) (skills ?s2))"
    by (rule list_search_and_total [where q = "''aT''" and k = None and a = None and b = None
          and s = ?s2 and u = ?u1, THEN conjunct2, THEN conjunct1, THEN mp, THEN conjunct1])
       (rule conjI [OF w b])
  then have e2: "length (filter (\<lambda>x. contains_ci (skill_name x) ''aT'')
      [skill_row ''S1'' ''Ratios'' ''T1'' ''beginner'',
       skill_row ''S2'' ''Sums'' ''T1'' ''beginner'']) = 1"
    by simp
  from w a e1 b e2 c d show ?thesis by (intro conjI)
qed

subsection \<open>Order of a listing\<close>

text \<open>
  Claim C6, as stated, fails: the handlers order by the name only
  (\<^verbatim>\<open>order_by(Topic.name.asc())\<close>). After two topics of the same name are created, the
  first with the greater identifier, the listing returns them in row order, which is
  not ascending in the identifier.
\<close>

theorem list_tie_counterexample:
  "run [CreateTopic ''T2'' (topic_body (Str ''Sets'') Absent),
        CreateTopic ''T1'' (topic_body (Str ''Sets'') Absent)] empty_store
     = Some \<lparr>topics = [topic_row ''T2'' ''Sets'' None, topic_row ''T1'' ''Sets'' None], skills = []\<rparr> \<and>
   list_topics None None None None
      \<lparr>topics = [topic_row ''T2'' ''Sets'' None, topic_row ''T1'' ''Sets'' None], skills = []\<rparr>
     = Inr \<lparr>data = [topic_row ''T2'' ''Sets'' None, topic_row ''T1'' ''Sets'' None],
            total = 2, meta_limit = 50, meta_offset = 0\<rparr> \<and>
   \<not> topics_by_name_then_id [topic_row ''T2'' ''Sets'' None, topic_row ''T1'' ''Sets'' None]"
  by (simp add: create_topic_def empty_store_def add_topic_def strip_def is_space_def Let_def
      list_topics_eq topic_query_def clamp_limit_def clamp_offset_def topics_by_name_then_id_def
      less_eq_char_def)

text \<open>
  Claim C6, amended. Every listing of topics or skills that answers returns its rows
  ordered by name ascending. (No order by identifier among equal names is part of it.)
\<close>

theorem list_sorted_by_name:
  "(list_topics q k a b s = Inr r \<longrightarrow> sorted (map topic_name (data r))) \<and>
   (list_skills q k a b s = Inr u \<longrightarrow> sorted (map skill_name (data u)))"
proof -
  have t: "sorted (map f (take n (drop m (sort_key f xs))))" for f :: "'a \<Rightarrow> string" and n m xs
    unfolding take_map [symmetric] drop_map [symmetric]
    by (intro sorted_wrt_take sorted_wrt_drop sorted_sort_key)
  show ?thesis
    by (auto simp: list_topics_eq list_skills_eq t split: if_splits)
qed


theorem list_sorted_by_name_witness:
  "list_topics None None None None
      \<lparr>topics = [topic_row ''T1'' ''Math'' None, topic_row ''T2'' ''Art'' None],
        skills = [skill_row ''S1'' ''Sums'' ''T1'' ''beginner'',
                  skill_row ''S2'' ''Lines'' ''T2'' ''beginner'']\<rparr>
     = Inr \<lparr>data = [topic_row ''T2'' ''Art'' None, topic_row ''T1'' ''Math'' None],
            total = 2, meta_limit = 50, meta_offset = 0\<rparr> \<and>
   sorted [''Art'', ''Math''] \<and>
   list_skills None None None None
      \<lparr>topics = [topic_row ''T1'' ''Math'' None, topic_row ''T2'' ''Art'' None],
        skills = [skill_row ''S1'' ''Sums'' ''T1'' ''beginner'',
                  skill_row ''S2'' ''Lines'' ''T2'' ''beginner'']\<rparr>
     = Inr \<lparr>data = [skill_row ''S2'' ''Lines'' ''T2'' ''beginner'',
                    skill_row ''S1'' ''Sums'' ''T1'' ''beginner''],
            total = 2, meta_limit = 50, meta_offset = 0\<rparr> \<and>
   sorted [''Lines'', ''Sums'']"
proof -
  let ?s = "\<lparr>topics = [topic_row ''T1'' ''Math'' None, topic_row ''T2'' ''Art'' None],
        skills = [skill_row ''S1'' ''Sums'' ''T1'' ''beginner'',
                  skill_row ''S2'' ''Lines'' ''T2'' ''beginner'']\<rparr>"
  have a: "list_topics None None None None ?s
     = Inr \<lparr>data = [topic_row ''T2'' ''Art'' None, topic_row ''T1'' ''Math'' None],
            total = 2, meta_limit = 50, meta_offset = 0\<rparr>"
    by code_simp
  have b: "list_skills None None None None ?s
     = Inr \<lparr>data = [skill_row ''S2'' ''Lines'' ''T2'' ''beginner'',
                    skill_row ''S1'' ''Sums'' ''T1'' ''beginner''],
            total = 2, meta_limit = 50, meta_offset = 0\<rparr>"
    by code_simp
  from a b
    list_sorted_by_name [of None None None None ?s
      "\<lparr>data = [topic_row ''T2'' ''Art'' None, topic_row ''T1'' ''Math'' None],
            total = 2, meta_limit = 50, meta_offset = 0\<rparr>"
      "\<lparr>data = [skill_row ''S2'' ''Lines'' ''T2'' ''beginner'',
                    skill_row ''S1'' ''Sums'' ''T1'' ''beginner''],
            total = 2, meta_limit = 50, meta_offset = 0\<rparr>"]
  show ?thesis by simp
qed

end
